theory Spec2Isabelle
  imports Main
begin

section \<open>Errors and diagnostics\<close>

text \<open>
  Every \<^verbatim>\<open>raise ValueError(...)\<close> of the three model classes carries a fixed message,
  some of them with the offending id formatted in. One constructor stands for each
  message text; the id the f-string formats in is the constructor's argument.
\<close>

datatype message =
    TitleLength                 \<comment> \<open>"Title must be a string between 5-50 characters."\<close>
  | ContentEmpty                \<comment> \<open>"Content must be a non-empty string."\<close>
  | AuthorIdNotPositive         \<comment> \<open>"Author ID must be a positive integer."\<close>
  | MagazineIdNotPositive       \<comment> \<open>"Magazine ID must be a positive integer."\<close>
  | AuthorDoesNotExist int      \<comment> \<open>"Author with id {author_id} does not exist."\<close>
  | MagazineDoesNotExist int    \<comment> \<open>"Magazine with id {magazine_id} does not exist."\<close>
  | ArticleNotFoundInDb int     \<comment> \<open>"Article with id {article_id} not found in the database."\<close>
  | IdNotPositive               \<comment> \<open>"ID must be a positive integer."\<close>
  | AuthorNeedsIdOrName         \<comment> \<open>"Either 'id' or 'name' must be provided to create an Author."\<close>
  | AuthorNotFoundInDb int      \<comment> \<open>"Author with id {author_id} not found in the database."\<close>
  | AuthorNotFound int          \<comment> \<open>"Author with id {author_id} not found."\<close>
  | NameEmpty                   \<comment> \<open>"Name must be a non-empty string."\<close>
  | MagazineNeedsIdOrFields     \<comment> \<open>"Either 'id' or ('name' and 'category') must be provided to create a Magazine."\<close>
  | MagazineNotFoundInDb int    \<comment> \<open>"Magazine with id {magazine_id} not found in the database."\<close>
  | MagazineNotFound int        \<comment> \<open>"Magazine with id {magazine_id} not found."\<close>
  | MagazineNameLength          \<comment> \<open>"Name must be a string between 2-16 characters."\<close>
  | CategoryEmpty               \<comment> \<open>"Category must be a non-empty string."\<close>

text \<open>What the storage layer can fail with: no connection, or a constraint of the schema.\<close>

datatype fault = Unavailable | UniqueViolation | CheckViolation | ForeignKeyViolation

text \<open>
  The exceptions that leave the model classes. \<open>ValueError\<close> is what the classes raise
  themselves (the specification's ValidationError and NotFound), \<open>TypeError\<close> is raised by
  the interpreter on a call with a missing argument, \<open>StorageError\<close> comes from the
  storage layer.
\<close>

datatype error = ValueError message | TypeError | StorageError fault

text \<open>The lines the relationship queries of Author print when they swallow an exception.\<close>

datatype diagnostic =
    ErrorFetchingArticles "int option" error
  | ErrorFetchingMagazines "int option" error

section \<open>Strings\<close>

text \<open>
  A Python \<^verbatim>\<open>str\<close> is modelled as a \<^typ>\<open>string\<close> whose characters are the code points
  0 to 255, so \<^const>\<open>length\<close> is Python's \<^verbatim>\<open>len\<close>. \<^verbatim>\<open>str.strip()\<close> removes leading and
  trailing characters for which \<^verbatim>\<open>str.isspace\<close> holds; in this range these are 9 to 13,
  28 to 32, 133 and 160.
\<close>

definition isspace :: "char \<Rightarrow> bool" where
  "isspace c =
     (let n = (of_char c :: nat)
      in (9 \<le> n \<and> n \<le> 13) \<or> (28 \<le> n \<and> n \<le> 32) \<or> n = 133 \<or> n = 160)"

definition strip :: "string \<Rightarrow> string" where
  "strip s = rev (dropWhile isspace (rev (dropWhile isspace s)))"

section \<open>The storage layer\<close>

text \<open>
  Modelled from the spec: \<^verbatim>\<open>database/connection.py\<close> (the function \<^verbatim>\<open>get_db_connection\<close>
  and the engine behind it) is not among the sources. The three tables and their
  constraints are those of \<^verbatim>\<open>create_tables\<close> in \<^verbatim>\<open>database/setup.py\<close>; the specification
  adds that the storage layer enforces uniqueness, the check constraints and the foreign
  keys, that ids are generated by autoincrement, and that any call may fail with a
  StorageError when the store cannot be reached.

  A table is the list of its rows in insertion order; a row is the tuple a cursor
  returns. Each table has the counter that autoincrement keeps (the largest id it has
  ever given out).
\<close>

type_synonym author_row = "int \<times> string"
type_synonym magazine_row = "int \<times> string \<times> string"
type_synonym article_row = "int \<times> string \<times> string \<times> int \<times> int"

record db =
  online :: bool
  authors :: "author_row list"
  authors_seq :: int
  magazines :: "magazine_row list"
  magazines_seq :: int
  articles :: "article_row list"
  articles_seq :: int

text \<open>Modelled from the spec: opening a connection fails when the store cannot be reached.\<close>

definition get_db_connection :: "db \<Rightarrow> error + unit" where
  "get_db_connection s = (if online s then Inr () else Inl (StorageError Unavailable))"

text \<open>
  Modelled from the spec: the id an autoincrement column gives a new row is one more than
  the largest id the table holds or has ever given out.
\<close>

definition next_rowid :: "int \<Rightarrow> int list \<Rightarrow> int" where
  "next_rowid seq ids = fold max ids seq + 1"

text \<open>
  Modelled from the spec: \<^verbatim>\<open>INSERT INTO authors (name) VALUES (?)\<close> under
  \<^verbatim>\<open>name TEXT NOT NULL UNIQUE\<close>. The result is \<^verbatim>\<open>cursor.lastrowid\<close> and the new store.
\<close>

definition insert_author :: "db \<Rightarrow> string \<Rightarrow> error + (int \<times> db)" where
  "insert_author s name =
     (if name \<in> set (map snd (authors s)) then Inl (StorageError UniqueViolation)
      else (let i = next_rowid (authors_seq s) (map fst (authors s))
            in Inr (i, s\<lparr>authors := authors s @ [(i, name)], authors_seq := i\<rparr>)))"

text \<open>
  Modelled from the spec: \<^verbatim>\<open>INSERT INTO magazines (name, category) VALUES (?, ?)\<close> under
  \<^verbatim>\<open>name TEXT NOT NULL UNIQUE\<close> and \<^verbatim>\<open>CHECK(LENGTH(category) > 0)\<close>.
\<close>

definition insert_magazine :: "db \<Rightarrow> string \<Rightarrow> string \<Rightarrow> error + (int \<times> db)" where
  "insert_magazine s name category =
     (if \<not> length category > 0 then Inl (StorageError CheckViolation)
      else if name \<in> set (map (\<lambda>(i, n, c). n) (magazines s))
      then Inl (StorageError UniqueViolation)
      else (let i = next_rowid (magazines_seq s) (map fst (magazines s))
            in Inr (i, s\<lparr>magazines := magazines s @ [(i, name, category)],
                         magazines_seq := i\<rparr>)))"

text \<open>
  Modelled from the spec: \<^verbatim>\<open>INSERT INTO articles (title, content, author_id, magazine_id)\<close>
  under \<^verbatim>\<open>CHECK(LENGTH(title) BETWEEN 5 AND 50)\<close> and the two foreign keys.
\<close>

definition insert_article :: "db \<Rightarrow> string \<Rightarrow> string \<Rightarrow> int \<Rightarrow> int \<Rightarrow> error + (int \<times> db)" where
  "insert_article s title content author_id magazine_id =
     (if \<not> (5 \<le> length title \<and> length title \<le> 50) then Inl (StorageError CheckViolation)
      else if author_id \<notin> set (map fst (authors s)) \<or> magazine_id \<notin> set (map fst (magazines s))
      then Inl (StorageError ForeignKeyViolation)
      else (let i = next_rowid (articles_seq s) (map fst (articles s))
            in Inr (i, s\<lparr>articles := articles s @ [(i, title, content, author_id, magazine_id)],
                         articles_seq := i\<rparr>)))"

text \<open>
  Modelled from the spec: \<^verbatim>\<open>UPDATE articles SET content = ? WHERE id = ?\<close>. The id is the
  object's \<^verbatim>\<open>_id\<close>, which is \<^verbatim>\<open>None\<close> (matching no row) or an integer.
\<close>

definition update_article_content :: "db \<Rightarrow> string \<Rightarrow> int option \<Rightarrow> db" where
  "update_article_content s content article_id =
     s\<lparr>articles := map (\<lambda>(i, t, c, a, m).
          if Some i = article_id then (i, t, content, a, m) else (i, t, c, a, m)) (articles s)\<rparr>"

text \<open>The rows a \<^verbatim>\<open>SELECT ... WHERE id = ?\<close> finds; \<^verbatim>\<open>fetchone\<close> is the first of them.\<close>

definition select_author_by_id :: "db \<Rightarrow> int \<Rightarrow> author_row option" where
  "select_author_by_id s author_id = find (\<lambda>(i, n). i = author_id) (authors s)"

definition select_author_by_name :: "db \<Rightarrow> string \<Rightarrow> author_row option" where
  "select_author_by_name s name = find (\<lambda>(i, n). n = name) (authors s)"

definition select_magazine_by_id :: "db \<Rightarrow> int \<Rightarrow> magazine_row option" where
  "select_magazine_by_id s magazine_id = find (\<lambda>(i, n, c). i = magazine_id) (magazines s)"

definition select_magazine_by_name_category :: "db \<Rightarrow> string \<Rightarrow> string \<Rightarrow> magazine_row option" where
  "select_magazine_by_name_category s name category =
     find (\<lambda>(i, n, c). n = name \<and> c = category) (magazines s)"

definition select_article_by_id :: "db \<Rightarrow> int \<Rightarrow> article_row option" where
  "select_article_by_id s article_id = find (\<lambda>(i, t, c, a, m). i = article_id) (articles s)"

section \<open>Magazine\<close>

text \<open>
  The fields \<^verbatim>\<open>_id\<close>, \<^verbatim>\<open>_name\<close>, \<^verbatim>\<open>_category\<close> of a Magazine object; each is \<^verbatim>\<open>None\<close> until
  set.
\<close>

record magazine =
  m_id :: "int option"
  m_name :: "string option"
  m_category :: "string option"

text \<open>Python's truth value of a field holding \<^verbatim>\<open>None\<close> or a string.\<close>

definition truthy :: "string option \<Rightarrow> bool" where
  "truthy v = (case v of None \<Rightarrow> False | Some x \<Rightarrow> x \<noteq> [])"

text \<open>\<^verbatim>\<open>Magazine.load_by_id\<close>: the object after the call, or the exception.\<close>

definition Magazine_load_by_id :: "db \<Rightarrow> magazine \<Rightarrow> int option \<Rightarrow> error + magazine" where
  "Magazine_load_by_id s self magazine_id =
     (case magazine_id of
        None \<Rightarrow> Inl (ValueError IdNotPositive)
      | Some mid \<Rightarrow>
          if mid \<le> 0 then Inl (ValueError IdNotPositive)
          else (case get_db_connection s of
                  Inl e \<Rightarrow> Inl e
                | Inr _ \<Rightarrow>
                    (case select_magazine_by_id s mid of
                       Some (i, n, c) \<Rightarrow>
                         Inr (self\<lparr>m_id := Some mid, m_name := Some n, m_category := Some c\<rparr>)
                     | None \<Rightarrow> Inl (ValueError (MagazineNotFoundInDb mid)))))"

text \<open>\<^verbatim>\<open>Magazine.create\<close>: the object after the call or the exception, and the store.\<close>

definition Magazine_create :: "db \<Rightarrow> magazine \<Rightarrow> string \<Rightarrow> string \<Rightarrow> (error + magazine) \<times> db" where
  "Magazine_create s self name category =
     (if \<not> (2 \<le> length name \<and> length name \<le> 16) then (Inl (ValueError MagazineNameLength), s)
      else if length category = 0 then (Inl (ValueError CategoryEmpty), s)
      else (case get_db_connection s of
              Inl e \<Rightarrow> (Inl e, s)
            | Inr _ \<Rightarrow>
                (case select_magazine_by_name_category s name category of
                   Some (i, n, c) \<Rightarrow>
                     (Inr (self\<lparr>m_id := Some i, m_name := Some name, m_category := Some category\<rparr>), s)
                 | None \<Rightarrow>
                     (case insert_magazine s name category of
                        Inl e \<Rightarrow> (Inl e, s)
                      | Inr (i, s') \<Rightarrow>
                          (Inr (self\<lparr>m_id := Some i, m_name := Some name,
                                     m_category := Some category\<rparr>), s')))))"

text \<open>\<^verbatim>\<open>Magazine.__init__(id=None, name=None, category=None)\<close>.\<close>

definition Magazine_init ::
  "db \<Rightarrow> int option \<Rightarrow> string option \<Rightarrow> string option \<Rightarrow> (error + magazine) \<times> db" where
  "Magazine_init s id' name category =
     (let self = \<lparr>m_id = None, m_name = None, m_category = None\<rparr>
      in if id' \<noteq> None then (Magazine_load_by_id s self id', s)
         else if truthy name \<and> truthy category then Magazine_create s self (the name) (the category)
         else (Inl (ValueError MagazineNeedsIdOrFields), s))"

text \<open>\<^verbatim>\<open>Magazine.get\<close> (a classmethod).\<close>

definition Magazine_get :: "db \<Rightarrow> int \<Rightarrow> error + magazine" where
  "Magazine_get s magazine_id =
     (if magazine_id \<le> 0 then Inl (ValueError IdNotPositive)
      else (case get_db_connection s of
              Inl e \<Rightarrow> Inl e
            | Inr _ \<Rightarrow>
                (case select_magazine_by_id s magazine_id of
                   Some (i, n, c) \<Rightarrow> fst (Magazine_init s (Some i) (Some n) (Some c))
                 | None \<Rightarrow> Inl (ValueError (MagazineNotFound magazine_id)))))"

text \<open>
  The property getters \<^verbatim>\<open>Magazine.name\<close> and \<^verbatim>\<open>Magazine.category\<close>: the value returned
  (or the exception) and the object after the read.
\<close>

definition Magazine_name :: "db \<Rightarrow> magazine \<Rightarrow> (error + string option) \<times> magazine" where
  "Magazine_name s self =
     (if \<not> truthy (m_name self)
      then (case Magazine_load_by_id s self (m_id self) of
              Inl e \<Rightarrow> (Inl e, self)
            | Inr self' \<Rightarrow> (Inr (m_name self'), self'))
      else (Inr (m_name self), self))"

definition Magazine_category :: "db \<Rightarrow> magazine \<Rightarrow> (error + string option) \<times> magazine" where
  "Magazine_category s self =
     (if \<not> truthy (m_category self)
      then (case Magazine_load_by_id s self (m_id self) of
              Inl e \<Rightarrow> (Inl e, self)
            | Inr self' \<Rightarrow> (Inr (m_category self'), self'))
      else (Inr (m_category self), self))"

text \<open>
  \<^verbatim>\<open>Magazine.articles\<close>: the \<^verbatim>\<open>(title, content, author_id)\<close> tuples of the articles whose
  \<^verbatim>\<open>magazine_id\<close> is the object's id. There is no \<^verbatim>\<open>try\<close> around the query.
\<close>

definition Magazine_articles :: "db \<Rightarrow> magazine \<Rightarrow> error + (string \<times> string \<times> int) list" where
  "Magazine_articles s self =
     (case get_db_connection s of
        Inl e \<Rightarrow> Inl e
      | Inr _ \<Rightarrow>
          Inr (map (\<lambda>(i, t, c, a, m). (t, c, a))
                 (filter (\<lambda>(i, t, c, a, m). Some m = m_id self) (articles s))))"

section \<open>Author\<close>

record author =
  a_id :: "int option"
  a_name :: "string option"

text \<open>\<^verbatim>\<open>Author.load_by_id\<close>.\<close>

definition Author_load_by_id :: "db \<Rightarrow> author \<Rightarrow> int \<Rightarrow> error + author" where
  "Author_load_by_id s self author_id =
     (if author_id \<le> 0 then Inl (ValueError IdNotPositive)
      else (case get_db_connection s of
              Inl e \<Rightarrow> Inl e
            | Inr _ \<Rightarrow>
                (case select_author_by_id s author_id of
                   Some (i, n) \<Rightarrow> Inr (self\<lparr>a_id := Some author_id, a_name := Some n\<rparr>)
                 | None \<Rightarrow> Inl (ValueError (AuthorNotFoundInDb author_id)))))"

text \<open>
  \<^verbatim>\<open>Author.create\<close>. The look-up by name goes through \<^verbatim>\<open>self.fetch_data\<close>, which opens a
  connection of its own; the insert opens another.
\<close>

definition Author_create :: "db \<Rightarrow> author \<Rightarrow> string \<Rightarrow> (error + author) \<times> db" where
  "Author_create s self name =
     (if length (strip name) = 0 then (Inl (ValueError NameEmpty), s)
      else (case get_db_connection s of
              Inl e \<Rightarrow> (Inl e, s)
            | Inr _ \<Rightarrow>
                (case select_author_by_name s (strip name) of
                   Some (i, n) \<Rightarrow> (Inr (self\<lparr>a_id := Some i, a_name := Some (strip name)\<rparr>), s)
                 | None \<Rightarrow>
                     (case get_db_connection s of
                        Inl e \<Rightarrow> (Inl e, s)
                      | Inr _ \<Rightarrow>
                          (case insert_author s (strip name) of
                             Inl e \<Rightarrow> (Inl e, s)
                           | Inr (i, s') \<Rightarrow>
                               (Inr (self\<lparr>a_id := Some i, a_name := Some (strip name)\<rparr>), s'))))))"

text \<open>\<^verbatim>\<open>Author.__init__(id=None, name=None)\<close>: the id is looked at first, the name only without one.\<close>

definition Author_init :: "db \<Rightarrow> int option \<Rightarrow> string option \<Rightarrow> (error + author) \<times> db" where
  "Author_init s id' name =
     (let self = \<lparr>a_id = None, a_name = None\<rparr>
      in (case id' of
            Some i \<Rightarrow> (Author_load_by_id s self i, s)
          | None \<Rightarrow>
              if truthy name then Author_create s self (the name)
              else (Inl (ValueError AuthorNeedsIdOrName), s)))"

text \<open>
  The call \<^verbatim>\<open>cls.fetch_data(query, params)\<close> in \<^verbatim>\<open>Author.get\<close>. \<^verbatim>\<open>fetch_data\<close> is defined as
  \<^verbatim>\<open>def fetch_data(self, query, params)\<close> with no decorator, so looked up on the class it is
  a plain function of three parameters: the two arguments are bound to \<^verbatim>\<open>self\<close> and
  \<^verbatim>\<open>query\<close>, \<^verbatim>\<open>params\<close> is missing, and the interpreter raises TypeError before the body
  runs, whatever the store holds.
\<close>

definition Author_cls_fetch_data :: "db \<Rightarrow> int \<Rightarrow> error + author_row option" where
  "Author_cls_fetch_data s author_id = Inl TypeError"

text \<open>\<^verbatim>\<open>Author.get\<close> (a classmethod).\<close>

definition Author_get :: "db \<Rightarrow> int \<Rightarrow> error + author" where
  "Author_get s author_id =
     (if author_id \<le> 0 then Inl (ValueError IdNotPositive)
      else (case Author_cls_fetch_data s author_id of
              Inl e \<Rightarrow> Inl e
            | Inr (Some (i, n)) \<Rightarrow> fst (Author_init s (Some i) (Some n))
            | Inr None \<Rightarrow> Inl (ValueError (AuthorNotFound author_id))))"

text \<open>
  \<^verbatim>\<open>Author.articles\<close>: the \<^verbatim>\<open>(title, content, author_id, magazine_id)\<close> tuples of the articles
  whose \<^verbatim>\<open>author_id\<close> is the object's id. Any exception is caught, a line is printed and
  the empty list returned. The result is the list and the lines printed.
\<close>

definition Author_articles ::
  "db \<Rightarrow> author \<Rightarrow> (string \<times> string \<times> int \<times> int) list \<times> diagnostic list" where
  "Author_articles s self =
     (case get_db_connection s of
        Inl e \<Rightarrow> ([], [ErrorFetchingArticles (a_id self) e])
      | Inr _ \<Rightarrow>
          (map (\<lambda>(i, t, c, a, m). (t, c, a, m))
             (filter (\<lambda>(i, t, c, a, m). Some a = a_id self) (articles s)), []))"

text \<open>
  The rows of
  \<^verbatim>\<open>SELECT DISTINCT magazines.id, magazines.name, magazines.category FROM magazines
  INNER JOIN articles ON articles.magazine_id = magazines.id WHERE articles.author_id = ?\<close>:
  one row for each pair of a magazine and an article of the author in it, duplicates
  removed. SQL fixes no order of the rows; the model takes the order of the tables.
\<close>

definition select_magazines_of_author :: "db \<Rightarrow> int option \<Rightarrow> magazine_row list" where
  "select_magazines_of_author s author_id =
     remdups (concat (map (\<lambda>(mi, mn, mc).
        map (\<lambda>r. (mi, mn, mc))
          (filter (\<lambda>(i, t, c, a, m). m = mi \<and> Some a = author_id) (articles s)))
        (magazines s)))"

text \<open>A list comprehension whose element expression may raise: the first exception ends it.\<close>

fun comprehension :: "('a \<Rightarrow> error + 'b) \<Rightarrow> 'a list \<Rightarrow> error + 'b list" where
  "comprehension f [] = Inr []"
| "comprehension f (x # xs) =
     (case f x of
        Inl e \<Rightarrow> Inl e
      | Inr y \<Rightarrow> (case comprehension f xs of Inl e \<Rightarrow> Inl e | Inr ys \<Rightarrow> Inr (y # ys)))"

text \<open>
  \<^verbatim>\<open>Author.magazines\<close>: each row of the join becomes \<^verbatim>\<open>Magazine(id=.., name=.., category=..)\<close>,
  which loads the magazine by its id. Any exception is caught as in \<^verbatim>\<open>articles\<close>.
\<close>

definition Author_magazines :: "db \<Rightarrow> author \<Rightarrow> magazine list \<times> diagnostic list" where
  "Author_magazines s self =
     (case get_db_connection s of
        Inl e \<Rightarrow> ([], [ErrorFetchingMagazines (a_id self) e])
      | Inr _ \<Rightarrow>
          (case comprehension
                  (\<lambda>(i, n, c). fst (Magazine_init s (Some i) (Some n) (Some c)))
                  (select_magazines_of_author s (a_id self)) of
             Inl e \<Rightarrow> ([], [ErrorFetchingMagazines (a_id self) e])
           | Inr ms \<Rightarrow> (ms, [])))"

section \<open>Magazine.contributors\<close>

text \<open>
  The rows of
  \<^verbatim>\<open>SELECT DISTINCT authors.name FROM authors INNER JOIN articles
  ON articles.author_id = authors.id WHERE articles.magazine_id = ?\<close>.
\<close>

definition select_contributor_names :: "db \<Rightarrow> int option \<Rightarrow> string list" where
  "select_contributor_names s magazine_id =
     remdups (concat (map (\<lambda>(ai, an).
        map (\<lambda>r. an)
          (filter (\<lambda>(i, t, c, a, m). a = ai \<and> Some m = magazine_id) (articles s)))
        (authors s)))"

text \<open>
  The comprehension \<^verbatim>\<open>[Author(name=result[0]) for result in results]\<close>. Each element goes
  through \<^verbatim>\<open>Author.create\<close>, which may insert, so the store is threaded through; an
  exception ends the comprehension and keeps what was inserted before it.
\<close>

fun authors_by_name :: "db \<Rightarrow> string list \<Rightarrow> (error + author list) \<times> db" where
  "authors_by_name s [] = (Inr [], s)"
| "authors_by_name s (n # ns) =
     (case Author_init s None (Some n) of
        (Inl e, s') \<Rightarrow> (Inl e, s')
      | (Inr a, s') \<Rightarrow>
          (case authors_by_name s' ns of
             (Inl e, s'') \<Rightarrow> (Inl e, s'')
           | (Inr as, s'') \<Rightarrow> (Inr (a # as), s'')))"

text \<open>\<^verbatim>\<open>Magazine.contributors\<close>. There is no \<^verbatim>\<open>try\<close> around the query.\<close>

definition Magazine_contributors :: "db \<Rightarrow> magazine \<Rightarrow> (error + author list) \<times> db" where
  "Magazine_contributors s self =
     (case get_db_connection s of
        Inl e \<Rightarrow> (Inl e, s)
      | Inr _ \<Rightarrow> authors_by_name s (select_contributor_names s (m_id self)))"

section \<open>Article\<close>

record article =
  r_id :: "int option"
  r_title :: "string option"
  r_content :: "string option"
  r_author_id :: "int option"
  r_magazine_id :: "int option"

text \<open>\<^verbatim>\<open>Article.load_by_id\<close>.\<close>

definition Article_load_by_id :: "db \<Rightarrow> article \<Rightarrow> int \<Rightarrow> error + article" where
  "Article_load_by_id s self article_id =
     (case get_db_connection s of
        Inl e \<Rightarrow> Inl e
      | Inr _ \<Rightarrow>
          (case select_article_by_id s article_id of
             Some (i, t, c, a, m) \<Rightarrow>
               Inr (self\<lparr>r_id := Some i, r_title := Some t, r_content := Some c,
                         r_author_id := Some a, r_magazine_id := Some m\<rparr>)
           | None \<Rightarrow> Inl (ValueError (ArticleNotFoundInDb article_id))))"

text \<open>
  \<^verbatim>\<open>Article.create\<close>. An argument left out is \<^verbatim>\<open>None\<close>, which fails the \<^verbatim>\<open>isinstance\<close> test
  of its check. Only a ValueError of \<^verbatim>\<open>Author.get\<close> or \<^verbatim>\<open>Magazine.get\<close> is caught and
  raised again with the message naming the id; any other exception passes through.
\<close>

definition Article_create ::
  "db \<Rightarrow> article \<Rightarrow> string option \<Rightarrow> string option \<Rightarrow> int option \<Rightarrow> int option
     \<Rightarrow> (error + article) \<times> db" where
  "Article_create s self title content author_id magazine_id =
     (if \<not> (case title of None \<Rightarrow> False | Some t \<Rightarrow> 5 \<le> length t \<and> length t \<le> 50)
      then (Inl (ValueError TitleLength), s)
      else if \<not> (case content of None \<Rightarrow> False | Some c \<Rightarrow> length (strip c) > 0)
      then (Inl (ValueError ContentEmpty), s)
      else if \<not> (case author_id of None \<Rightarrow> False | Some a \<Rightarrow> a > 0)
      then (Inl (ValueError AuthorIdNotPositive), s)
      else if \<not> (case magazine_id of None \<Rightarrow> False | Some m \<Rightarrow> m > 0)
      then (Inl (ValueError MagazineIdNotPositive), s)
      else (case Author_get s (the author_id) of
              Inl (ValueError msg) \<Rightarrow> (Inl (ValueError (AuthorDoesNotExist (the author_id))), s)
            | Inl e \<Rightarrow> (Inl e, s)
            | Inr author \<Rightarrow>
                (case Magazine_get s (the magazine_id) of
                   Inl (ValueError msg) \<Rightarrow>
                     (Inl (ValueError (MagazineDoesNotExist (the magazine_id))), s)
                 | Inl e \<Rightarrow> (Inl e, s)
                 | Inr magazine \<Rightarrow>
                     (case get_db_connection s of
                        Inl e \<Rightarrow> (Inl e, s)
                      | Inr _ \<Rightarrow>
                          (case insert_article s (strip (the title)) (strip (the content))
                                  (the author_id) (the magazine_id) of
                             Inl e \<Rightarrow> (Inl e, s)
                           | Inr (i, s') \<Rightarrow>
                               (Inr (self\<lparr>r_id := Some i,
                                          r_title := Some (strip (the title)),
                                          r_content := Some (strip (the content)),
                                          r_author_id := author_id,
                                          r_magazine_id := magazine_id\<rparr>), s'))))))"

text \<open>\<^verbatim>\<open>Article.__init__(id=None, title=None, content=None, author_id=None, magazine_id=None)\<close>.\<close>

definition Article_init ::
  "db \<Rightarrow> int option \<Rightarrow> string option \<Rightarrow> string option \<Rightarrow> int option \<Rightarrow> int option
     \<Rightarrow> (error + article) \<times> db" where
  "Article_init s id' title content author_id magazine_id =
     (let self = \<lparr>r_id = None, r_title = None, r_content = None,
                  r_author_id = None, r_magazine_id = None\<rparr>
      in (case id' of
            Some i \<Rightarrow> (Article_load_by_id s self i, s)
          | None \<Rightarrow> Article_create s self title content author_id magazine_id))"

text \<open>
  The setter of \<^verbatim>\<open>Article.content\<close>: the exception if one is raised, the object after the
  assignment and the store after it.
\<close>

definition Article_set_content :: "db \<Rightarrow> article \<Rightarrow> string \<Rightarrow> error option \<times> article \<times> db" where
  "Article_set_content s self new_content =
     (if \<not> length (strip new_content) > 0 then (Some (ValueError ContentEmpty), self, s)
      else (case get_db_connection s of
              Inl e \<Rightarrow> (Some e, self, s)
            | Inr _ \<Rightarrow>
                (None, self\<lparr>r_content := Some (strip new_content)\<rparr>,
                 update_article_content s (strip new_content) (r_id self))))"

section \<open>Stores the schema and the model classes produce\<close>

text \<open>
  Modelled from the spec: what the storage layer guarantees of every store, by the
  constraints of \<^verbatim>\<open>create_tables\<close>: primary keys, \<^verbatim>\<open>UNIQUE\<close> on \<^verbatim>\<open>authors.name\<close> and on
  \<^verbatim>\<open>magazines.name\<close>, the two \<^verbatim>\<open>CHECK\<close>s and the two foreign keys.
\<close>

definition schema_ok :: "db \<Rightarrow> bool" where
  "schema_ok s \<longleftrightarrow>
     distinct (map fst (authors s)) \<and> distinct (map snd (authors s)) \<and>
     distinct (map fst (magazines s)) \<and> distinct (map (\<lambda>(i, n, c). n) (magazines s)) \<and>
     (\<forall>(i, n, c) \<in> set (magazines s). length c > 0) \<and>
     distinct (map fst (articles s)) \<and>
     (\<forall>(i, t, c, a, m) \<in> set (articles s).
        5 \<le> length t \<and> length t \<le> 50 \<and>
        a \<in> set (map fst (authors s)) \<and> m \<in> set (map fst (magazines s)))"

text \<open>
  What holds of the rows when every author and magazine row was written by
  \<^verbatim>\<open>Author.create\<close> and \<^verbatim>\<open>Magazine.create\<close>: the ids come from autoincrement and are
  positive, an author's name is stored stripped and is not empty, a magazine's name has 2
  to 16 characters.
\<close>

definition rows_as_written :: "db \<Rightarrow> bool" where
  "rows_as_written s \<longleftrightarrow>
     0 \<le> authors_seq s \<and> 0 \<le> magazines_seq s \<and>
     (\<forall>(i, n) \<in> set (authors s). 0 < i \<and> n \<noteq> [] \<and> strip n = n) \<and>
     (\<forall>(i, n, c) \<in> set (magazines s). 0 < i \<and> 2 \<le> length n \<and> length n \<le> 16)"



subsection \<open>Example stores\<close>

text \<open>The store of the end-to-end scenario: one author, one magazine, one article.\<close>

definition db_scenario :: db where
  "db_scenario =
     \<lparr>online = True,
      authors = [(1, ''Jane Doe'')], authors_seq = 1,
      magazines = [(1, ''Tech Weekly'', ''Technology'')], magazines_seq = 1,
      articles = [(1, ''A Great Title Here'', ''Some content body'', 1, 1)], articles_seq = 1\<rparr>"

text \<open>The same store when it cannot be reached.\<close>

definition db_offline :: db where
  "db_offline = db_scenario\<lparr>online := False\<rparr>"

text \<open>A store with a magazine and no author, and one with an author and no magazine.\<close>

definition db_no_author :: db where
  "db_no_author =
     \<lparr>online = True, authors = [], authors_seq = 0,
      magazines = [(1, ''Tech Weekly'', ''Technology'')], magazines_seq = 1,
      articles = [], articles_seq = 0\<rparr>"

definition db_no_magazine :: db where
  "db_no_magazine =
     \<lparr>online = True, authors = [(1, ''Jane Doe'')], authors_seq = 1,
      magazines = [], magazines_seq = 0,
      articles = [], articles_seq = 0\<rparr>"

text \<open>
  Two authors and two magazines; the first author has two articles in the first magazine
  and one in the second, the second author one in the first magazine.
\<close>

definition db_two_articles :: db where
  "db_two_articles =
     \<lparr>online = True,
      authors = [(1, ''Jane Doe''), (2, ''John Roe'')], authors_seq = 2,
      magazines = [(1, ''Tech Weekly'', ''Technology''), (2, ''Garden'', ''Leisure'')],
      magazines_seq = 2,
      articles = [(1, ''A Great Title Here'', ''Some content body'', 1, 1),
                  (2, ''Another Title'', ''More content'', 1, 1),
                  (3, ''Roses in Winter'', ''Prune them'', 1, 2),
                  (4, ''Compilers'', ''Parse first'', 2, 1)],
      articles_seq = 4\<rparr>"

section \<open>Lists, look-ups and strings\<close>

lemma strip_blank:
  assumes "\<forall>c\<in>set s. isspace c"
  shows "strip s = []"
proof -
  from assms have e: "dropWhile isspace s = []" by (rule dropWhile_eq_Nil_conv[THEN iffD2])
  show ?thesis unfolding strip_def e by simp
qed

lemma strip_nonempty: "strip n \<noteq> [] \<Longrightarrow> n \<noteq> []"
  by (auto simp: strip_def)

lemma truthy_Some: "truthy (Some x) = (x \<noteq> [])"
  by (simp add: truthy_def)

lemma find_append_None: "find P xs = None \<Longrightarrow> find P (xs @ ys) = find P ys"
  by (induction xs) (auto split: if_splits)

lemma filter_empty_of_find_None: "find P xs = None \<Longrightarrow> filter P xs = []"
  by (induction xs) (auto split: if_splits)

text \<open>Under a key without duplicates, the rows with the key of a stored row are that row.\<close>

lemma one_row_per_key:
  "distinct (map f xs) \<Longrightarrow> x \<in> set xs \<Longrightarrow> filter (\<lambda>y. f y = f x) xs = [x]"
proof (induction xs)
  case Nil
  then show ?case by simp
next
  case (Cons y ys)
  show ?case
  proof (cases "y = x")
    case True
    with Cons.prems have "f x \<notin> f ` set ys" by simp
    then have "\<forall>z\<in>set ys. f z \<noteq> f x" by (metis imageI)
    then have "filter (\<lambda>y. f y = f x) ys = []" by (simp add: filter_empty_conv)
    with True show ?thesis by simp
  next
    case False
    with Cons.prems have x: "x \<in> set ys" and d: "distinct (map f ys)" and "f y \<noteq> f x"
      by auto
    with Cons.IH show ?thesis by simp
  qed
qed



section \<open>The constructors keep the store well formed\<close>

lemma strip_strip: "strip (strip s) = strip s"
proof -
  let ?t = "dropWhile isspace s"
  let ?u = "rev (dropWhile isspace (rev ?t))"
  have split: "?t = ?u @ rev (takeWhile isspace (rev ?t))"
    by (metis rev_append rev_rev_ident takeWhile_dropWhile_id)
  have front: "dropWhile isspace ?u = ?u"
  proof (cases "?u = []")
    case True
    then show ?thesis by (metis dropWhile.simps(1))
  next
    case False
    with split have "hd ?u = hd ?t" by (metis hd_append2)
    moreover from False split have "?t \<noteq> []" by (metis append_is_Nil_conv)
    then have "\<not> isspace (hd ?t)" by (rule hd_dropWhile)
    ultimately show ?thesis using False by (simp add: dropWhile_eq_self_iff)
  qed
  have rear: "dropWhile isspace (rev ?u) = rev ?u"
    by simp
  show ?thesis
    unfolding strip_def front rear by simp
qed

lemma fold_max_bounds:
  "(seq::int) \<le> fold max ids seq \<and> (\<forall>i\<in>set ids. i \<le> fold max ids seq)"
proof (induction ids arbitrary: seq)
  case Nil
  then show ?case by simp
next
  case (Cons x xs)
  from Cons.IH[of "max x seq"] show ?case by auto
qed

lemma next_rowid_fresh: "i \<in> set ids \<Longrightarrow> i < next_rowid seq ids"
  using fold_max_bounds[of seq ids] by (auto simp: next_rowid_def)

lemma next_rowid_above_seq: "seq < next_rowid seq ids"
  using fold_max_bounds[of seq ids] by (auto simp: next_rowid_def)

text \<open>
  The two constructors keep the schema's constraints and write rows of the shape
  \<^const>\<open>rows_as_written\<close> describes.
\<close>

lemma Author_init_preserves:
  assumes ok: "schema_ok s" and written: "rows_as_written s"
    and run: "Author_init s i n = (r, s')"
  shows "schema_ok s' \<and> rows_as_written s'"
proof (cases "s' = s")
  case True
  with ok written show ?thesis by simp
next
  case False
  let ?j = "next_rowid (authors_seq s) (map fst (authors s))"
  from False run obtain name where
    s': "s' = s\<lparr>authors := authors s @ [(?j, strip name)], authors_seq := ?j\<rparr>"
    and ne: "strip name \<noteq> []" and new: "strip name \<notin> set (map snd (authors s))"
    by (auto simp: Author_init_def Author_create_def insert_author_def Let_def
        split: option.splits if_splits sum.splits prod.splits)
  have fresh: "?j \<notin> set (map fst (authors s))"
    using next_rowid_fresh[of _ "map fst (authors s)" "authors_seq s"] by fastforce
  have pos: "0 < ?j"
    using next_rowid_above_seq[of "authors_seq s" "map fst (authors s)"] written
    by (simp add: rows_as_written_def)
  from ok fresh new have "schema_ok s'"
    unfolding s' schema_ok_def by auto
  moreover from written pos ne have "rows_as_written s'"
    unfolding s' rows_as_written_def by (auto simp: strip_strip)
  ultimately show ?thesis by simp
qed

lemma Magazine_init_preserves:
  assumes ok: "schema_ok s" and written: "rows_as_written s"
    and run: "Magazine_init s i n c = (r, s')"
  shows "schema_ok s' \<and> rows_as_written s'"
proof (cases "s' = s")
  case True
  with ok written show ?thesis by simp
next
  case False
  let ?j = "next_rowid (magazines_seq s) (map fst (magazines s))"
  from False run obtain name cat where
    s': "s' = s\<lparr>magazines := magazines s @ [(?j, name, cat)], magazines_seq := ?j\<rparr>"
    and len: "2 \<le> length name" "length name \<le> 16" and cat: "cat \<noteq> []"
    and new: "name \<notin> set (map (\<lambda>(i, n, c). n) (magazines s))"
    by (auto simp: Magazine_init_def Magazine_create_def insert_magazine_def Let_def
        split: option.splits if_splits sum.splits prod.splits)
  have fresh: "?j \<notin> set (map fst (magazines s))"
    using next_rowid_fresh[of _ "map fst (magazines s)" "magazines_seq s"] by fastforce
  have pos: "0 < ?j"
    using next_rowid_above_seq[of "magazines_seq s" "map fst (magazines s)"] written
    by (simp add: rows_as_written_def)
  from ok fresh new cat have "schema_ok s'"
    unfolding s' schema_ok_def by auto
  moreover from written pos len have "rows_as_written s'"
    unfolding s' rows_as_written_def by auto
  ultimately show ?thesis by simp
qed

section \<open>Author.get and what depends on it\<close>

text \<open>
  For a positive id \<^verbatim>\<open>Author.get\<close> raises TypeError, whether the author exists or not; it
  raises ValueError only for an id that is not positive.
\<close>

lemma Author_get_positive: "0 < i \<Longrightarrow> Author_get s i = Inl TypeError"
  by (simp add: Author_get_def Author_cls_fetch_data_def)

lemma Author_get_never_returns: "Author_get s i \<noteq> Inr a"
  by (simp add: Author_get_def Author_cls_fetch_data_def)

text \<open>
  So \<^verbatim>\<open>Article.create\<close> never reaches its insert: once the four arguments have passed
  their checks it ends in the TypeError of \<^verbatim>\<open>Author.get\<close>, and the store is as before.
\<close>

lemma Article_create_checked:
  assumes "5 \<le> length t" "length t \<le> 50" "strip c \<noteq> []" "0 < a" "0 < m"
  shows "Article_create s self (Some t) (Some c) (Some a) (Some m) = (Inl TypeError, s)"
  using assms by (simp add: Article_create_def Author_get_positive)

lemma Article_create_never_returns:
  "fst (Article_create s self t c a m) \<noteq> Inr x \<and> snd (Article_create s self t c a m) = s"
proof (cases "\<exists>a'. a = Some a' \<and> 0 < a'")
  case True
  then obtain a' where "a = Some a'" "0 < a'" by blast
  then show ?thesis
    by (simp add: Article_create_def Author_get_positive)
next
  case False
  then have "\<not> (case a of None \<Rightarrow> False | Some a' \<Rightarrow> a' > 0)"
    by (cases a) auto
  then show ?thesis
    by (simp add: Article_create_def)
qed

section \<open>Article construction and the referenced rows\<close>

text \<open>
  Claim C1. Constructing an Article whose author or magazine row is missing should fail
  with a ValueError naming the missing id, and insert nothing. Evaluated on a store with
  no author row and on a store with no magazine row: nothing is inserted, but the
  exception is the TypeError of \<^verbatim>\<open>Author.get\<close>, not the ValueError that names the id.
\<close>

theorem Article_init_missing_reference:
  "Article_init db_no_author None (Some ''Hello'') (Some ''Some content body'') (Some 1) (Some 1)
     = (Inl TypeError, db_no_author)
   \<and> Article_init db_no_magazine None (Some ''Hello'') (Some ''Some content body'') (Some 1) (Some 1)
     = (Inl TypeError, db_no_magazine)
   \<and> select_author_by_id db_no_author 1 = None
   \<and> select_magazine_by_id db_no_magazine 1 = None"
  by (simp add: Article_init_def Article_create_def Author_get_positive strip_def isspace_def
      select_author_by_id_def select_magazine_by_id_def db_no_author_def db_no_magazine_def)

section \<open>Relationship queries on a store that cannot be reached\<close>

text \<open>
  Claim C3. Each of the four relationship queries should swallow a storage failure, print
  a diagnostic and return an empty sequence. Evaluated on the unreachable store: the two
  queries of Author do so, the two queries of Magazine let the StorageError through.
\<close>

theorem relationship_queries_offline:
  "Author_articles db_offline \<lparr>a_id = Some 1, a_name = Some ''Jane Doe''\<rparr>
     = ([], [ErrorFetchingArticles (Some 1) (StorageError Unavailable)])
   \<and> Author_magazines db_offline \<lparr>a_id = Some 1, a_name = Some ''Jane Doe''\<rparr>
     = ([], [ErrorFetchingMagazines (Some 1) (StorageError Unavailable)])
   \<and> Magazine_articles db_offline
        \<lparr>m_id = Some 1, m_name = Some ''Tech Weekly'', m_category = Some ''Technology''\<rparr>
     = Inl (StorageError Unavailable)
   \<and> Magazine_contributors db_offline
        \<lparr>m_id = Some 1, m_name = Some ''Tech Weekly'', m_category = Some ''Technology''\<rparr>
     = (Inl (StorageError Unavailable), db_offline)"
  by (simp add: Author_articles_def Author_magazines_def Magazine_articles_def
      Magazine_contributors_def get_db_connection_def db_offline_def db_scenario_def)

section \<open>The bounds of the title\<close>

text \<open>
  Claim C5. With valid content and existing author and magazine, construction should
  fail with a ValueError for a title of 4 or 51 characters and succeed for one of 5 or 50.
  Evaluated on the scenario store: the two short and long titles are rejected as claimed;
  the titles of 5 and of 50 characters pass the check and construction then ends in the
  TypeError of \<^verbatim>\<open>Author.get\<close> instead of succeeding.
\<close>

theorem Article_init_title_bounds:
  "Article_init db_scenario None (Some ''Four'') (Some ''Some content body'') (Some 1) (Some 1)
     = (Inl (ValueError TitleLength), db_scenario)
   \<and> Article_init db_scenario None (Some (replicate 51 CHR ''t'')) (Some ''Some content body'')
        (Some 1) (Some 1)
     = (Inl (ValueError TitleLength), db_scenario)
   \<and> Article_init db_scenario None (Some ''Title'') (Some ''Some content body'') (Some 1) (Some 1)
     = (Inl TypeError, db_scenario)
   \<and> Article_init db_scenario None (Some (replicate 50 CHR ''t'')) (Some ''Some content body'')
        (Some 1) (Some 1)
     = (Inl TypeError, db_scenario)"
  by (simp add: Article_init_def Article_create_def Author_get_positive strip_def isspace_def)

section \<open>Setting the content of an article\<close>

text \<open>
  Claim C6. Setting the content of any article to the empty string or to a string of
  whitespace only raises the ValueError of the content check; the store and the object,
  with its cached content, are as before.
\<close>

theorem Article_set_content_blank:
  "\<forall>c\<in>set new_content. isspace c \<Longrightarrow>
     Article_set_content s self new_content = (Some (ValueError ContentEmpty), self, s)"
  by (simp add: Article_set_content_def strip_blank)

theorem Article_set_content_blank_witness:
  "Article_set_content db_scenario
        \<lparr>r_id = Some 1, r_title = Some ''A Great Title Here'',
         r_content = Some ''Some content body'', r_author_id = Some 1, r_magazine_id = Some 1\<rparr>
        ''   ''
     = (Some (ValueError ContentEmpty),
        \<lparr>r_id = Some 1, r_title = Some ''A Great Title Here'',
         r_content = Some ''Some content body'', r_author_id = Some 1, r_magazine_id = Some 1\<rparr>,
        db_scenario)"
proof -
  have h: "\<forall>c\<in>set ''   ''. isspace c"
    by (simp add: isspace_def)
  from Article_set_content_blank[OF h] show ?thesis .
qed

section \<open>The arguments of Author\<close>

text \<open>
  Claim C9 says that an id and a name together are not a valid combination. On the
  scenario store the construction with both succeeds: the author is loaded by the id and
  the name is not looked at.
\<close>

theorem Author_init_id_and_name_accepted:
  "Author_init db_scenario (Some 1) (Some ''Someone Else'')
     = (Inr \<lparr>a_id = Some 1, a_name = Some ''Jane Doe''\<rparr>, db_scenario)"
  by (simp add: Author_init_def Author_load_by_id_def get_db_connection_def
      select_author_by_id_def db_scenario_def)

text \<open>
  Claim C9, amended. Without an id, no name or the empty name raises the ValueError
  "Either 'id' or 'name' must be provided". With an id, whatever name comes with it is
  ignored and the author is loaded by that id: on a reachable store and for a positive id,
  the construction succeeds with the id and the stored name when the authors table has a
  row with that id, and raises the ValueError "not found in the database" when it has
  none; the store is as before. So an id together with a name is accepted.
\<close>

theorem Author_init_id_or_name:
  "Author_init s None None = (Inl (ValueError AuthorNeedsIdOrName), s)
   \<and> Author_init s None (Some []) = (Inl (ValueError AuthorNeedsIdOrName), s)
   \<and> Author_init s (Some i) name = Author_init s (Some i) None
   \<and> (online s \<and> 0 < i \<and> select_author_by_id s i = Some (i, n) \<longrightarrow>
        Author_init s (Some i) name = (Inr \<lparr>a_id = Some i, a_name = Some n\<rparr>, s))
   \<and> (online s \<and> 0 < i \<and> select_author_by_id s i = None \<longrightarrow>
        Author_init s (Some i) name = (Inl (ValueError (AuthorNotFoundInDb i)), s))"
  by (simp add: Author_init_def truthy_def Author_load_by_id_def get_db_connection_def)

theorem Author_init_id_or_name_witness:
  "Author_init db_two_articles (Some 2) (Some ''Jane Doe'')
     = (Inr \<lparr>a_id = Some 2, a_name = Some ''John Roe''\<rparr>, db_two_articles)
   \<and> Author_init db_two_articles (Some 7) (Some ''Jane Doe'')
     = (Inl (ValueError (AuthorNotFoundInDb 7)), db_two_articles)"
proof -
  have on: "online db_two_articles"
    by (simp add: db_two_articles_def)
  have found: "select_author_by_id db_two_articles 2 = Some (2, ''John Roe'')"
    by (simp add: select_author_by_id_def db_two_articles_def)
  have absent: "select_author_by_id db_two_articles 7 = None"
    by (simp add: select_author_by_id_def db_two_articles_def)
  have pos2: "(0::int) < 2" and pos7: "(0::int) < 7"
    by simp_all
  have "Author_init db_two_articles (Some 2) (Some ''Jane Doe'')
     = (Inr \<lparr>a_id = Some 2, a_name = Some ''John Roe''\<rparr>, db_two_articles)"
    using Author_init_id_or_name[of db_two_articles 2 "Some ''Jane Doe''" "''John Roe''"]
      on found pos2 by blast
  moreover
  have "Author_init db_two_articles (Some 7) (Some ''Jane Doe'')
     = (Inl (ValueError (AuthorNotFoundInDb 7)), db_two_articles)"
    using Author_init_id_or_name[of db_two_articles 7 "Some ''Jane Doe''"]
      on absent pos7 by blast
  ultimately show ?thesis by simp
qed

section \<open>The title that is checked and the title that is stored\<close>

text \<open>
  Claim C10. A title of 5 to 50 characters whose stripped form is shorter than 5 should
  pass the title check and reach the insert with the stripped title. Evaluated at the
  title of five characters \<open>''  a  ''\<close>: it passes the check and its stripped form has one
  character, but construction ends in the TypeError of \<^verbatim>\<open>Author.get\<close> before any insert
  is attempted.
\<close>

theorem Article_init_padded_title:
  "length ''  a  '' = 5 \<and> strip ''  a  '' = ''a''
   \<and> Article_init db_scenario None (Some ''  a  '') (Some ''Some content body'') (Some 1) (Some 1)
     = (Inl TypeError, db_scenario)"
  by (simp add: Article_init_def Article_create_def Author_get_positive strip_def isspace_def)

text \<open>The insert, had it been reached, would have been refused by the check on the title.\<close>

lemma insert_article_stripped_title:
  "insert_article db_scenario (strip ''  a  '') (strip ''Some content body'') 1 1
     = Inl (StorageError CheckViolation)"
  by (simp add: insert_article_def strip_def isspace_def)

section \<open>Reuse on create\<close>

lemma Author_init_twice:
  assumes on: "online s" and uniq: "distinct (map snd (authors s))"
    and valid: "strip n1 \<noteq> []" and same: "strip n1 = strip n2"
  shows "\<exists>i s1. Author_init s None (Some n1) = (Inr \<lparr>a_id = Some i, a_name = Some (strip n1)\<rparr>, s1)
           \<and> Author_init s1 None (Some n2) = (Inr \<lparr>a_id = Some i, a_name = Some (strip n1)\<rparr>, s1)
           \<and> filter (\<lambda>(j, n). n = strip n1) (authors s1) = [(i, strip n1)]
           \<and> (authors s1 = authors s \<or> authors s1 = authors s @ [(i, strip n1)])
           \<and> magazines s1 = magazines s \<and> articles s1 = articles s"
proof (cases "select_author_by_name s (strip n1)")
  case None
  let ?i = "next_rowid (authors_seq s) (map fst (authors s))"
  let ?s1 = "s\<lparr>authors := authors s @ [(?i, strip n1)], authors_seq := ?i\<rparr>"
  from None have nf: "find (\<lambda>(i, n). n = strip n1) (authors s) = None"
    by (simp add: select_author_by_name_def)
  then have notin: "strip n1 \<notin> set (map snd (authors s))"
    by (auto simp: find_None_iff)
  have first: "Author_init s None (Some n1) = (Inr \<lparr>a_id = Some ?i, a_name = Some (strip n1)\<rparr>, ?s1)"
    using on valid None notin strip_nonempty[OF valid]
    by (simp add: Author_init_def Author_create_def truthy_Some get_db_connection_def
        insert_author_def Let_def)
  have sel: "select_author_by_name ?s1 (strip n1) = Some (?i, strip n1)"
    using nf by (simp add: select_author_by_name_def find_append_None)
  have n2: "n2 \<noteq> []" using valid same strip_nonempty[of n2] by simp
  have second: "Author_init ?s1 None (Some n2) = (Inr \<lparr>a_id = Some ?i, a_name = Some (strip n1)\<rparr>, ?s1)"
    using on valid sel n2 same[symmetric]
    by (simp add: Author_init_def Author_create_def truthy_Some get_db_connection_def)
  have rows: "filter (\<lambda>(j, n). n = strip n1) (authors ?s1) = [(?i, strip n1)]"
    using filter_empty_of_find_None[OF nf] by simp
  have frame: "(authors ?s1 = authors s \<or> authors ?s1 = authors s @ [(?i, strip n1)])
      \<and> magazines ?s1 = magazines s \<and> articles ?s1 = articles s"
    by simp
  from first second rows frame show ?thesis by blast
next
  case (Some r)
  obtain i n where r: "r = (i, n)" by (cases r)
  from Some r have f: "find (\<lambda>(i, n). n = strip n1) (authors s) = Some (i, n)"
    by (simp add: select_author_by_name_def)
  then have n: "n = strip n1" and mem: "(i, n) \<in> set (authors s)"
    by (auto simp: find_Some_iff in_set_conv_nth)
  have first: "Author_init s None (Some n1) = (Inr \<lparr>a_id = Some i, a_name = Some (strip n1)\<rparr>, s)"
    using on valid Some r strip_nonempty[OF valid]
    by (simp add: Author_init_def Author_create_def truthy_Some get_db_connection_def)
  have n2: "n2 \<noteq> []" using valid same strip_nonempty[of n2] by simp
  have second: "Author_init s None (Some n2) = (Inr \<lparr>a_id = Some i, a_name = Some (strip n1)\<rparr>, s)"
    using on valid Some r n2 same[symmetric]
    by (simp add: Author_init_def Author_create_def truthy_Some get_db_connection_def)
  have "filter (\<lambda>y. snd y = snd (i, n)) (authors s) = [(i, n)]"
    using one_row_per_key[OF uniq mem] .
  then have rows: "filter (\<lambda>(j, n). n = strip n1) (authors s) = [(i, strip n1)]"
    using n by (simp add: case_prod_unfold)
  from first second rows show ?thesis by blast
qed

lemma Magazine_init_twice:
  assumes on: "online s" and uniq: "distinct (map (\<lambda>(i, n, c). n) (magazines s))"
    and len: "2 \<le> length n" "length n \<le> 16" and cat: "c \<noteq> []"
    and noclash: "\<forall>(i, n', c') \<in> set (magazines s). n' = n \<longrightarrow> c' = c"
  shows "\<exists>i s1. Magazine_init s None (Some n) (Some c)
                  = (Inr \<lparr>m_id = Some i, m_name = Some n, m_category = Some c\<rparr>, s1)
           \<and> Magazine_init s1 None (Some n) (Some c)
                  = (Inr \<lparr>m_id = Some i, m_name = Some n, m_category = Some c\<rparr>, s1)
           \<and> filter (\<lambda>(j, n', c'). n' = n \<and> c' = c) (magazines s1) = [(i, n, c)]
           \<and> (magazines s1 = magazines s \<or> magazines s1 = magazines s @ [(i, n, c)])
           \<and> authors s1 = authors s \<and> articles s1 = articles s"
proof (cases "select_magazine_by_name_category s n c")
  case None
  let ?i = "next_rowid (magazines_seq s) (map fst (magazines s))"
  let ?s1 = "s\<lparr>magazines := magazines s @ [(?i, n, c)], magazines_seq := ?i\<rparr>"
  from len have n: "n \<noteq> []" by auto
  from None have nf: "find (\<lambda>(i, n', c'). n' = n \<and> c' = c) (magazines s) = None"
    by (simp add: select_magazine_by_name_category_def)
  then have "\<forall>(i, n', c') \<in> set (magazines s). \<not> (n' = n \<and> c' = c)"
    by (auto simp: find_None_iff)
  with noclash have notin: "n \<notin> set (map (\<lambda>(i, n, c). n) (magazines s))"
    by fastforce
  have first: "Magazine_init s None (Some n) (Some c)
      = (Inr \<lparr>m_id = Some ?i, m_name = Some n, m_category = Some c\<rparr>, ?s1)"
    using on len cat n None notin
    by (simp add: Magazine_init_def Magazine_create_def truthy_Some get_db_connection_def
        insert_magazine_def Let_def)
  have sel: "select_magazine_by_name_category ?s1 n c = Some (?i, n, c)"
    using nf by (simp add: select_magazine_by_name_category_def find_append_None)
  have second: "Magazine_init ?s1 None (Some n) (Some c)
      = (Inr \<lparr>m_id = Some ?i, m_name = Some n, m_category = Some c\<rparr>, ?s1)"
    using on len cat n sel
    by (simp add: Magazine_init_def Magazine_create_def truthy_Some get_db_connection_def)
  have rows: "filter (\<lambda>(j, n', c'). n' = n \<and> c' = c) (magazines ?s1) = [(?i, n, c)]"
    using filter_empty_of_find_None[OF nf] by simp
  have frame: "(magazines ?s1 = magazines s \<or> magazines ?s1 = magazines s @ [(?i, n, c)])
      \<and> authors ?s1 = authors s \<and> articles ?s1 = articles s"
    by simp
  from first second rows frame show ?thesis by blast
next
  case (Some r)
  obtain i n' c' where r: "r = (i, n', c')" by (cases r)
  from len have n: "n \<noteq> []" by auto
  from Some r have "find (\<lambda>(i, n', c'). n' = n \<and> c' = c) (magazines s) = Some (i, n', c')"
    by (simp add: select_magazine_by_name_category_def)
  then have eq: "n' = n" "c' = c" and mem: "(i, n', c') \<in> set (magazines s)"
    by (auto simp: find_Some_iff in_set_conv_nth)
  have first: "Magazine_init s None (Some n) (Some c)
      = (Inr \<lparr>m_id = Some i, m_name = Some n, m_category = Some c\<rparr>, s)"
    using on len cat n Some r
    by (simp add: Magazine_init_def Magazine_create_def truthy_Some get_db_connection_def)
  have "filter (\<lambda>y. (\<lambda>(i, n, c). n) y = (\<lambda>(i, n, c). n) (i, n, c)) (magazines s) = [(i, n, c)]"
    using mem eq by (intro one_row_per_key[OF uniq]) simp
  then have byname: "filter (\<lambda>(j, n', c'). n' = n) (magazines s) = [(i, n, c)]"
    by (simp add: case_prod_unfold)
  have "filter (\<lambda>(j, n', c'). n' = n \<and> c' = c) (magazines s)
      = filter (\<lambda>(j, n', c'). c' = c) (filter (\<lambda>(j, n', c'). n' = n) (magazines s))"
    by (simp add: case_prod_unfold conj_commute)
  with byname have rows: "filter (\<lambda>(j, n', c'). n' = n \<and> c' = c) (magazines s) = [(i, n, c)]"
    by simp
  from first rows show ?thesis by blast
qed

text \<open>
  Claim C4 says that constructing a Magazine twice with the same name and category
  yields the same id both times, for every such pair. On the scenario store, which
  satisfies the schema and holds the magazine ''Tech Weekly'' of category ''Technology'',
  the first construction with the valid pair ''Tech Weekly'' and ''Science'' already fails
  on the uniqueness of the name and yields no id.
\<close>

theorem Magazine_init_reuse_name_clash:
  "online db_scenario \<and> schema_ok db_scenario
   \<and> 2 \<le> length ''Tech Weekly'' \<and> length ''Tech Weekly'' \<le> 16 \<and> ''Science'' \<noteq> []
   \<and> Magazine_init db_scenario None (Some ''Tech Weekly'') (Some ''Science'')
       = (Inl (StorageError UniqueViolation), db_scenario)"
  by (simp add: Magazine_init_def Magazine_create_def truthy_def get_db_connection_def
      select_magazine_by_name_category_def insert_magazine_def schema_ok_def db_scenario_def)

text \<open>
  Claim C4, amended. On a reachable store that satisfies the schema, constructing an
  Author twice with names that are equal after stripping (and not empty) succeeds both
  times with the same id; that id is the id of the one authors row with the stripped name,
  the first construction either leaves the authors table as it was or appends that row,
  and the second leaves the store as the first left it. Constructing a Magazine twice with
  the same valid name and category does the same with the one magazines row of that name
  and category, provided no stored magazine has that name under another category.
\<close>

theorem create_twice_same_id:
  assumes on: "online s" and ok: "schema_ok s"
  shows "(strip n1 \<noteq> [] \<and> strip n1 = strip n2 \<longrightarrow>
            (\<exists>i s1. Author_init s None (Some n1)
                       = (Inr \<lparr>a_id = Some i, a_name = Some (strip n1)\<rparr>, s1)
               \<and> Author_init s1 None (Some n2)
                       = (Inr \<lparr>a_id = Some i, a_name = Some (strip n1)\<rparr>, s1)
               \<and> filter (\<lambda>(j, n). n = strip n1) (authors s1) = [(i, strip n1)]
               \<and> (authors s1 = authors s \<or> authors s1 = authors s @ [(i, strip n1)])
               \<and> magazines s1 = magazines s \<and> articles s1 = articles s))
       \<and> (2 \<le> length n \<and> length n \<le> 16 \<and> c \<noteq> []
           \<and> (\<forall>(i, n', c') \<in> set (magazines s). n' = n \<longrightarrow> c' = c) \<longrightarrow>
            (\<exists>i s1. Magazine_init s None (Some n) (Some c)
                       = (Inr \<lparr>m_id = Some i, m_name = Some n, m_category = Some c\<rparr>, s1)
               \<and> Magazine_init s1 None (Some n) (Some c)
                       = (Inr \<lparr>m_id = Some i, m_name = Some n, m_category = Some c\<rparr>, s1)
               \<and> filter (\<lambda>(j, n', c'). n' = n \<and> c' = c) (magazines s1) = [(i, n, c)]
               \<and> (magazines s1 = magazines s \<or> magazines s1 = magazines s @ [(i, n, c)])
               \<and> authors s1 = authors s \<and> articles s1 = articles s))"
proof (intro conjI impI)
  assume a: "strip n1 \<noteq> [] \<and> strip n1 = strip n2"
  from ok have u: "distinct (map snd (authors s))"
    by (simp add: schema_ok_def)
  show "\<exists>i s1. Author_init s None (Some n1)
                       = (Inr \<lparr>a_id = Some i, a_name = Some (strip n1)\<rparr>, s1)
               \<and> Author_init s1 None (Some n2)
                       = (Inr \<lparr>a_id = Some i, a_name = Some (strip n1)\<rparr>, s1)
               \<and> filter (\<lambda>(j, n). n = strip n1) (authors s1) = [(i, strip n1)]
               \<and> (authors s1 = authors s \<or> authors s1 = authors s @ [(i, strip n1)])
               \<and> magazines s1 = magazines s \<and> articles s1 = articles s"
    using Author_init_twice[OF on u conjunct1[OF a] conjunct2[OF a]] .
next
  assume m: "2 \<le> length n \<and> length n \<le> 16 \<and> c \<noteq> []
           \<and> (\<forall>(i, n', c') \<in> set (magazines s). n' = n \<longrightarrow> c' = c)"
  from ok have u: "distinct (map (\<lambda>(i, n, c). n) (magazines s))"
    by (simp add: schema_ok_def)
  from m have "2 \<le> length n" "length n \<le> 16" "c \<noteq> []"
    and "\<forall>(i, n', c') \<in> set (magazines s). n' = n \<longrightarrow> c' = c"
    by blast+
  from Magazine_init_twice[OF on u this]
  show "\<exists>i s1. Magazine_init s None (Some n) (Some c)
                       = (Inr \<lparr>m_id = Some i, m_name = Some n, m_category = Some c\<rparr>, s1)
               \<and> Magazine_init s1 None (Some n) (Some c)
                       = (Inr \<lparr>m_id = Some i, m_name = Some n, m_category = Some c\<rparr>, s1)
               \<and> filter (\<lambda>(j, n', c'). n' = n \<and> c' = c) (magazines s1) = [(i, n, c)]
               \<and> (magazines s1 = magazines s \<or> magazines s1 = magazines s @ [(i, n, c)])
               \<and> authors s1 = authors s \<and> articles s1 = articles s"
    .
qed

theorem create_twice_same_id_witness:
  "(\<exists>i s1. Author_init db_scenario None (Some '' Ann '')
              = (Inr \<lparr>a_id = Some i, a_name = Some (strip '' Ann '')\<rparr>, s1)
      \<and> Author_init s1 None (Some ''Ann'')
              = (Inr \<lparr>a_id = Some i, a_name = Some (strip '' Ann '')\<rparr>, s1)
      \<and> filter (\<lambda>(j, n). n = strip '' Ann '') (authors s1) = [(i, strip '' Ann '')]
      \<and> (authors s1 = authors db_scenario
           \<or> authors s1 = authors db_scenario @ [(i, strip '' Ann '')])
      \<and> magazines s1 = magazines db_scenario \<and> articles s1 = articles db_scenario)
   \<and> (\<exists>i s1. Magazine_init db_scenario None (Some ''Garden'') (Some ''Leisure'')
              = (Inr \<lparr>m_id = Some i, m_name = Some ''Garden'', m_category = Some ''Leisure''\<rparr>, s1)
      \<and> Magazine_init s1 None (Some ''Garden'') (Some ''Leisure'')
              = (Inr \<lparr>m_id = Some i, m_name = Some ''Garden'', m_category = Some ''Leisure''\<rparr>, s1)
      \<and> filter (\<lambda>(j, n', c'). n' = ''Garden'' \<and> c' = ''Leisure'') (magazines s1)
          = [(i, ''Garden'', ''Leisure'')]
      \<and> (magazines s1 = magazines db_scenario
           \<or> magazines s1 = magazines db_scenario @ [(i, ''Garden'', ''Leisure'')])
      \<and> authors s1 = authors db_scenario \<and> articles s1 = articles db_scenario)"
proof -
  have on: "online db_scenario"
    by (simp add: db_scenario_def)
  have ok: "schema_ok db_scenario"
    by (simp add: schema_ok_def db_scenario_def)
  have a: "strip '' Ann '' \<noteq> [] \<and> strip '' Ann '' = strip ''Ann''"
    by (simp add: strip_def isspace_def)
  have m: "2 \<le> length ''Garden'' \<and> length ''Garden'' \<le> 16 \<and> ''Leisure'' \<noteq> []
           \<and> (\<forall>(i, n', c') \<in> set (magazines db_scenario). n' = ''Garden'' \<longrightarrow> c' = ''Leisure'')"
    by (simp add: db_scenario_def)
  from create_twice_same_id[OF on ok, of "'' Ann ''" "''Ann''" "''Garden''" "''Leisure''"] a m
  show ?thesis by blast
qed

text \<open>
  The two evaluated: the first construction appends the row with id 2, the second finds
  it; and a magazine already stored under the pair is found with its id and nothing is
  written.
\<close>

lemma create_twice_evaluated:
  "Author_init db_scenario None (Some '' Ann '')
     = (Inr \<lparr>a_id = Some 2, a_name = Some ''Ann''\<rparr>,
        db_scenario\<lparr>authors := [(1, ''Jane Doe''), (2, ''Ann'')], authors_seq := 2\<rparr>)"
  "Author_init (db_scenario\<lparr>authors := [(1, ''Jane Doe''), (2, ''Ann'')], authors_seq := 2\<rparr>)
       None (Some ''Ann'')
     = (Inr \<lparr>a_id = Some 2, a_name = Some ''Ann''\<rparr>,
        db_scenario\<lparr>authors := [(1, ''Jane Doe''), (2, ''Ann'')], authors_seq := 2\<rparr>)"
  "Magazine_init db_scenario None (Some ''Tech Weekly'') (Some ''Technology'')
     = (Inr \<lparr>m_id = Some 1, m_name = Some ''Tech Weekly'', m_category = Some ''Technology''\<rparr>,
        db_scenario)"
  by (simp_all add: Author_init_def Author_create_def Magazine_init_def Magazine_create_def
      truthy_def get_db_connection_def select_author_by_name_def insert_author_def
      select_magazine_by_name_category_def next_rowid_def strip_def isspace_def
      db_scenario_def Let_def)

section \<open>The same name under another category\<close>

text \<open>
  Claim C2. On a reachable store that satisfies the schema and whose rows the model
  classes wrote, for a stored magazine with name n and category c, constructing a
  Magazine with n and another (non-empty) category finds no row in the look-up by name
  and category, so no id is reused, and the insert is refused by the uniqueness of the
  name: the construction ends in that StorageError and the store is as before.
\<close>

theorem Magazine_init_same_name_other_category:
  assumes on: "online s" and ok: "schema_ok s" and written: "rows_as_written s"
    and stored: "(i, n, c) \<in> set (magazines s)"
    and other: "c' \<noteq> c" "c' \<noteq> []"
  shows "select_magazine_by_name_category s n c' = None
         \<and> Magazine_init s None (Some n) (Some c') = (Inl (StorageError UniqueViolation), s)"
proof -
  from written stored have len: "2 \<le> length n" "length n \<le> 16"
    by (auto simp: rows_as_written_def)
  then have n: "n \<noteq> []" by auto
  from ok have uniq: "distinct (map (\<lambda>(i, n, c). n) (magazines s))"
    by (simp add: schema_ok_def)
  then have inj: "inj_on (\<lambda>(i, n, c). n) (set (magazines s))"
    by (simp add: distinct_map)
  have "\<not> (j, n, c') \<in> set (magazines s)" for j
  proof
    assume "(j, n, c') \<in> set (magazines s)"
    with stored inj_onD[OF inj, of "(j, n, c')" "(i, n, c)"] have "(j, n, c') = (i, n, c)"
      by simp
    with other show False by simp
  qed
  then have sel: "select_magazine_by_name_category s n c' = None"
    by (auto simp: select_magazine_by_name_category_def find_None_iff)
  from stored have taken: "n \<in> set (map (\<lambda>(i, n, c). n) (magazines s))"
    by force
  have "Magazine_init s None (Some n) (Some c') = (Inl (StorageError UniqueViolation), s)"
    using on len other n sel taken
    by (simp add: Magazine_init_def Magazine_create_def truthy_Some get_db_connection_def
        insert_magazine_def)
  with sel show ?thesis by simp
qed

theorem Magazine_init_same_name_other_category_witness:
  "select_magazine_by_name_category db_scenario ''Tech Weekly'' ''Science'' = None
   \<and> Magazine_init db_scenario None (Some ''Tech Weekly'') (Some ''Science'')
       = (Inl (StorageError UniqueViolation), db_scenario)"
proof -
  have on: "online db_scenario"
    by (simp add: db_scenario_def)
  have ok: "schema_ok db_scenario"
    by (simp add: schema_ok_def db_scenario_def)
  have written: "rows_as_written db_scenario"
    by (simp add: rows_as_written_def db_scenario_def strip_def isspace_def)
  have stored: "(1, ''Tech Weekly'', ''Technology'') \<in> set (magazines db_scenario)"
    by (simp add: db_scenario_def)
  have other: "''Science'' \<noteq> ''Technology''" "''Science'' \<noteq> []"
    by simp_all
  from Magazine_init_same_name_other_category[OF on ok written stored other]
  show ?thesis .
qed

section \<open>Reading a field of a Magazine that is not cached\<close>

text \<open>
  Claim C8. For a Magazine object with a positive id whose row is in a reachable store:
  when the cached name is \<^verbatim>\<open>None\<close> or empty, reading \<^verbatim>\<open>name\<close> returns the stored name and
  leaves the object with both the name and the category of the stored row; when the cached
  category is \<^verbatim>\<open>None\<close> or empty, reading \<^verbatim>\<open>category\<close> does the same.
\<close>

theorem Magazine_getters_reload_row:
  assumes on: "online s" and pos: "0 < i" and id: "m_id self = Some i"
    and row: "select_magazine_by_id s i = Some (i, n, c)"
  shows "(\<not> truthy (m_name self) \<longrightarrow>
            Magazine_name s self = (Inr (Some n), self\<lparr>m_name := Some n, m_category := Some c\<rparr>))
       \<and> (\<not> truthy (m_category self) \<longrightarrow>
            Magazine_category s self = (Inr (Some c), self\<lparr>m_name := Some n, m_category := Some c\<rparr>))"
  using assms
  by (simp add: Magazine_name_def Magazine_category_def Magazine_load_by_id_def
      get_db_connection_def)

theorem Magazine_getters_reload_row_witness:
  "Magazine_name db_scenario \<lparr>m_id = Some 1, m_name = None, m_category = Some ''Stale''\<rparr>
     = (Inr (Some ''Tech Weekly''),
        \<lparr>m_id = Some 1, m_name = Some ''Tech Weekly'', m_category = Some ''Technology''\<rparr>)
   \<and> Magazine_category db_scenario \<lparr>m_id = Some 1, m_name = Some ''Stale'', m_category = Some []\<rparr>
     = (Inr (Some ''Technology''),
        \<lparr>m_id = Some 1, m_name = Some ''Tech Weekly'', m_category = Some ''Technology''\<rparr>)"
proof -
  have on: "online db_scenario"
    by (simp add: db_scenario_def)
  have row: "select_magazine_by_id db_scenario 1 = Some (1, ''Tech Weekly'', ''Technology'')"
    by (simp add: select_magazine_by_id_def db_scenario_def)
  have pos: "(0::int) < 1" by simp
  have "Magazine_name db_scenario \<lparr>m_id = Some 1, m_name = None, m_category = Some ''Stale''\<rparr>
     = (Inr (Some ''Tech Weekly''),
        \<lparr>m_id = Some 1, m_name = Some ''Tech Weekly'', m_category = Some ''Technology''\<rparr>)"
    using Magazine_getters_reload_row[OF on pos _ row,
        of "\<lparr>m_id = Some 1, m_name = None, m_category = Some ''Stale''\<rparr>"]
    by (simp add: truthy_def)
  moreover
  have "Magazine_category db_scenario \<lparr>m_id = Some 1, m_name = Some ''Stale'', m_category = Some []\<rparr>
     = (Inr (Some ''Technology''),
        \<lparr>m_id = Some 1, m_name = Some ''Tech Weekly'', m_category = Some ''Technology''\<rparr>)"
    using Magazine_getters_reload_row[OF on pos _ row,
        of "\<lparr>m_id = Some 1, m_name = Some ''Stale'', m_category = Some []\<rparr>"]
    by (simp add: truthy_def)
  ultimately show ?thesis by simp
qed

section \<open>The relationship queries return each entity once\<close>











text \<open>What the two queries return on that store, evaluated.\<close>

lemma relationship_queries_two_articles:
  "Author_magazines db_two_articles \<lparr>a_id = Some 1, a_name = Some ''Jane Doe''\<rparr>
     = ([\<lparr>m_id = Some 1, m_name = Some ''Tech Weekly'', m_category = Some ''Technology''\<rparr>,
         \<lparr>m_id = Some 2, m_name = Some ''Garden'', m_category = Some ''Leisure''\<rparr>], [])"
  "Magazine_contributors db_two_articles
        \<lparr>m_id = Some 1, m_name = Some ''Tech Weekly'', m_category = Some ''Technology''\<rparr>
     = (Inr [\<lparr>a_id = Some 1, a_name = Some ''Jane Doe''\<rparr>,
             \<lparr>a_id = Some 2, a_name = Some ''John Roe''\<rparr>], db_two_articles)"
  by (simp_all add: Author_magazines_def Magazine_contributors_def get_db_connection_def
      select_magazines_of_author_def select_contributor_names_def Magazine_init_def
      Magazine_load_by_id_def select_magazine_by_id_def Author_init_def Author_create_def
      select_author_by_name_def truthy_def strip_def isspace_def db_two_articles_def)

end
